theory Spec2Isabelle
  imports Main "HOL-Library.Word"
begin

section \<open>Apollo vendor-request dispatch (firmware/src/vendor.c)\<close>

text \<open>
  The file dispatches USB vendor control requests through three stage functions
  (\<open>handle_vendor_request_setup\<close>, \<open>handle_vendor_request_complete\<close>,
  \<open>handle_vendor_request_finish\<close>) selected by \<open>tud_vendor_control_xfer_cb\<close>.
  Every C function becomes a state-passing HOL function on a \<open>device\<close> record. The
  record carries a chronological trace of the calls that the code of \<open>vendor.c\<close>
  makes, so that "which handler ran" and "which hardware action was called" are
  observable: every handler appends an entry when it is entered, and every call into
  another file appends an entry when it is made. The three dispatchers and the callback
  append nothing themselves. What a collaborator does inside its own file is not part
  of the trace.
\<close>

subsection \<open>Data\<close>

type_synonym u8 = "8 word"
type_synonym u16 = "16 word"
type_synonym u32 = "32 word"

text \<open>
  The setup packet of a control transfer (\<open>tusb_control_request_t\<close> of TinyUSB): the
  standard eight bytes of a USB setup packet. \<open>vendor.c\<close> reads \<open>bRequest\<close>,
  \<open>wValue\<close> and \<open>wIndex\<close>.
\<close>

record tusb_control_request_t =
  bmRequestType :: u8
  bRequest :: u8
  wValue :: u16
  wIndex :: u16
  wLength :: u16

text \<open>The anonymous enum of supported vendor requests (lines 27 to 71).\<close>

definition VENDOR_REQUEST_GET_ID :: u8 where "VENDOR_REQUEST_GET_ID = 0xa0"
definition VENDOR_REQUEST_SET_LED_PATTERN :: u8 where "VENDOR_REQUEST_SET_LED_PATTERN = 0xa1"
definition VENDOR_REQUEST_JTAG_START :: u8 where "VENDOR_REQUEST_JTAG_START = 0xbf"
definition VENDOR_REQUEST_JTAG_STOP :: u8 where "VENDOR_REQUEST_JTAG_STOP = 0xbe"
definition VENDOR_REQUEST_JTAG_CLEAR_OUT_BUFFER :: u8 where "VENDOR_REQUEST_JTAG_CLEAR_OUT_BUFFER = 0xb0"
definition VENDOR_REQUEST_JTAG_SET_OUT_BUFFER :: u8 where "VENDOR_REQUEST_JTAG_SET_OUT_BUFFER = 0xb1"
definition VENDOR_REQUEST_JTAG_GET_IN_BUFFER :: u8 where "VENDOR_REQUEST_JTAG_GET_IN_BUFFER = 0xb2"
definition VENDOR_REQUEST_JTAG_SCAN :: u8 where "VENDOR_REQUEST_JTAG_SCAN = 0xb3"
definition VENDOR_REQUEST_JTAG_RUN_CLOCK :: u8 where "VENDOR_REQUEST_JTAG_RUN_CLOCK = 0xb4"
definition VENDOR_REQUEST_JTAG_GOTO_STATE :: u8 where "VENDOR_REQUEST_JTAG_GOTO_STATE = 0xb5"
definition VENDOR_REQUEST_JTAG_GET_STATE :: u8 where "VENDOR_REQUEST_JTAG_GET_STATE = 0xb6"
definition VENDOR_REQUEST_JTAG_BULK_SCAN :: u8 where "VENDOR_REQUEST_JTAG_BULK_SCAN = 0xb7"
definition VENDOR_REQUEST_TRIGGER_RECONFIGURATION :: u8 where "VENDOR_REQUEST_TRIGGER_RECONFIGURATION = 0xc0"
definition VENDOR_REQUEST_FORCE_FPGA_OFFLINE :: u8 where "VENDOR_REQUEST_FORCE_FPGA_OFFLINE = 0xc1"
definition VENDOR_REQUEST_ALLOW_FPGA_TAKEOVER_USB :: u8 where "VENDOR_REQUEST_ALLOW_FPGA_TAKEOVER_USB = 0xc2"
definition VENDOR_REQUEST_DEBUG_SPI_SEND :: u8 where "VENDOR_REQUEST_DEBUG_SPI_SEND = 0x50"
definition VENDOR_REQUEST_DEBUG_SPI_READ_RESPONSE :: u8 where "VENDOR_REQUEST_DEBUG_SPI_READ_RESPONSE = 0x51"
definition VENDOR_REQUEST_FLASH_SPI_SEND :: u8 where "VENDOR_REQUEST_FLASH_SPI_SEND = 0x52"
definition VENDOR_REQUEST_TAKE_FLASH_LINES :: u8 where "VENDOR_REQUEST_TAKE_FLASH_LINES = 0x53"
definition VENDOR_REQUEST_RELEASE_FLASH_LINES :: u8 where "VENDOR_REQUEST_RELEASE_FLASH_LINES = 0x54"
definition VENDOR_REQUEST_GET_RAIL_VOLTAGE :: u8 where "VENDOR_REQUEST_GET_RAIL_VOLTAGE = 0xe0"
definition VENDOR_REQUEST_GET_MS_DESCRIPTOR :: u8 where "VENDOR_REQUEST_GET_MS_DESCRIPTOR = 0xee"

text \<open>
  What the build fixes and \<open>vendor.c\<close> only names: whether the preprocessor symbol
  \<open>_BOARD_HAS_DEBUG_SPI\<close> is defined (\<open>apollo_board.h\<close>), and the three stage
  constants of TinyUSB that \<open>tud_vendor_control_xfer_cb\<close> switches on. They are
  parameters of the model.
\<close>

record build =
  BOARD_HAS_DEBUG_SPI :: bool
  CONTROL_STAGE_SETUP :: u8
  CONTROL_STAGE_DATA :: u8
  CONTROL_STAGE_ACK :: u8

subsection \<open>Static data\<close>

text \<open>
  Modelled from the spec: the TinyUSB macros \<open>U32_TO_U8S_LE\<close> and \<open>U16_TO_U8S_LE\<close>
  (\<open>tusb.h\<close> is not among the sources). They expand a constant to its bytes, least
  significant byte first, which is the "little-endian" layout of the descriptor header.
\<close>

definition U32_TO_U8S_LE :: "u32 \<Rightarrow> u8 list" where
  "U32_TO_U8S_LE x =
     [ucast x, ucast (drop_bit 8 x), ucast (drop_bit 16 x), ucast (drop_bit 24 x)]"

definition U16_TO_U8S_LE :: "u16 \<Rightarrow> u8 list" where
  "U16_TO_U8S_LE x = [ucast x, ucast (drop_bit 8 x)]"

text \<open>A character constant such as \<open>'W'\<close> stored in a \<open>uint8_t\<close>.\<close>

definition chr :: "char \<Rightarrow> u8" where
  "chr c = of_char c"

text \<open>The Microsoft OS 1.0 descriptor (lines 74 to 88), element by element.\<close>

definition desc_ms_os_10 :: "u8 list" where
  "desc_ms_os_10 =
     U32_TO_U8S_LE 0x0028 @
     U16_TO_U8S_LE 0x0100 @
     U16_TO_U8S_LE 0x0004 @
     [0x01,
      0x00, 0x00, 0x00, 0x00, 0x00, 0x00, 0x00,
      0x02,
      0x01,
      chr CHR ''W'', chr CHR ''I'', chr CHR ''N'', chr CHR ''U'', chr CHR ''S'', chr CHR ''B'', 0x00, 0x00,
      0x00, 0x00, 0x00, 0x00, 0x00, 0x00, 0x00, 0x00,
      0x00, 0x00, 0x00, 0x00, 0x00, 0x00]"

text \<open>
  A \<open>char\<close> array initialised from a string literal holds the characters and a
  terminating NUL: \<open>static char description[] = "Apollo Debug Module"\<close> (line 109).
\<close>

definition string_literal :: "string \<Rightarrow> u8 list" where
  "string_literal cs = map chr cs @ [0]"

definition description :: "u8 list" where
  "description = string_literal ''Apollo Debug Module''"

text \<open>
  \<open>sizeof\<close> of an array of one-byte elements is its number of elements; passed as the
  \<open>uint16_t len\<close> argument of \<open>tud_control_xfer\<close> it is converted to 16 bits.
\<close>

definition sizeof :: "u8 list \<Rightarrow> u16" where
  "sizeof a = of_nat (length a)"

subsection \<open>Calls and the device state\<close>

text \<open>One name per request handler that \<open>vendor.c\<close> defines or calls.\<close>

datatype handler =
    Handle_get_ms_descriptor
  | Handle_get_id_request
  | Handle_set_led_pattern
  | Handle_trigger_fpga_reconfiguration
  | Handle_force_fpga_offline
  | Handle_allow_fpga_takeover_usb
  | Handle_allow_fpga_takeover_usb_finish
  | Handle_jtag_request_clear_out_buffer
  | Handle_jtag_request_set_out_buffer
  | Handle_jtag_request_get_in_buffer
  | Handle_jtag_request_scan
  | Handle_jtag_run_clock
  | Handle_jtag_start
  | Handle_jtag_go_to_state
  | Handle_jtag_stop
  | Handle_jtag_get_state
  | Handle_debug_spi_send
  | Handle_debug_spi_get_response
  | Handle_flash_spi_send
  | Handle_take_configuration_spi
  | Handle_release_configuration_spi
  | Handle_debug_spi_send_complete
  | Handle_flash_spi_send_complete

text \<open>
  A trace entry: a handler entered with its arguments \<open>(rhport, request)\<close>, or a call
  that leaves the file. The buffer argument of \<open>tud_control_xfer\<close> is \<open>None\<close> for
  \<open>NULL\<close> and the contents of the array otherwise.
\<close>

datatype event =
    Handler handler u8 tusb_control_request_t
  | Tud_control_xfer u8 tusb_control_request_t "u8 list option" u16
  | Led_set_blink_pattern u16
  | Trigger_fpga_reconfiguration
  | Force_fpga_offline
  | Allow_fpga_takeover_usb

text \<open>
  The device: the active LED pattern (owned by \<open>led.c\<close>), the state of the other
  collaborators (USB controller, JTAG, SPI and FPGA drivers) kept abstract, and the trace.
\<close>

record 'x device =
  blink_pattern :: u16
  collab :: 'x
  trace :: "event list"

text \<open>
  The collaborators are not part of \<open>vendor.c\<close>: what a call into them returns and how it
  changes their state is a parameter \<open>ext\<close> of the model. For a \<open>void\<close> function the
  returned flag is ignored.
\<close>

type_synonym 'x ext = "event \<Rightarrow> 'x \<Rightarrow> bool \<times> 'x"

definition enter :: "handler \<Rightarrow> u8 \<Rightarrow> tusb_control_request_t \<Rightarrow> 'x device \<Rightarrow> 'x device" where
  "enter h rhport request s = s\<lparr>trace := trace s @ [Handler h rhport request]\<rparr>"

definition extern :: "'x ext \<Rightarrow> event \<Rightarrow> 'x device \<Rightarrow> bool \<times> 'x device" where
  "extern ext e s =
     (fst (ext e (collab s)), s\<lparr>collab := snd (ext e (collab s)), trace := trace s @ [e]\<rparr>)"

subsection \<open>External functions\<close>

definition tud_control_xfer ::
  "'x ext \<Rightarrow> u8 \<Rightarrow> tusb_control_request_t \<Rightarrow> u8 list option \<Rightarrow> u16 \<Rightarrow> 'x device \<Rightarrow> bool \<times> 'x device" where
  "tud_control_xfer ext rhport request buffer len s =
     extern ext (Tud_control_xfer rhport request buffer len) s"

text \<open>
  Modelled from the spec: \<open>led_set_blink_pattern\<close> (\<open>led.c\<close> is not among the sources).
  The spec lists the "active LED pattern" as the piece of device state that the
  LED-pattern request changes, with the request's value as the pattern; the call
  stores its argument as the active pattern.
\<close>

definition led_set_blink_pattern :: "u16 \<Rightarrow> 'x device \<Rightarrow> 'x device" where
  "led_set_blink_pattern pattern s =
     s\<lparr>blink_pattern := pattern, trace := trace s @ [Led_set_blink_pattern pattern]\<rparr>"

definition trigger_fpga_reconfiguration :: "'x ext \<Rightarrow> 'x device \<Rightarrow> 'x device" where
  "trigger_fpga_reconfiguration ext s = snd (extern ext Trigger_fpga_reconfiguration s)"

definition force_fpga_offline :: "'x ext \<Rightarrow> 'x device \<Rightarrow> 'x device" where
  "force_fpga_offline ext s = snd (extern ext Force_fpga_offline s)"

definition allow_fpga_takeover_usb :: "'x ext \<Rightarrow> 'x device \<Rightarrow> 'x device" where
  "allow_fpga_takeover_usb ext s = snd (extern ext Allow_fpga_takeover_usb s)"

text \<open>
  A handler defined in another file (\<open>jtag.c\<close>, \<open>debug_spi.c\<close>): entering it is the
  trace entry, its result and effect come from \<open>ext\<close>.
\<close>

definition external_handler ::
  "handler \<Rightarrow> 'x ext \<Rightarrow> u8 \<Rightarrow> tusb_control_request_t \<Rightarrow> 'x device \<Rightarrow> bool \<times> 'x device" where
  "external_handler h ext rhport request s = extern ext (Handler h rhport request) s"

abbreviation "handle_jtag_request_clear_out_buffer \<equiv> external_handler Handle_jtag_request_clear_out_buffer"
abbreviation "handle_jtag_request_set_out_buffer \<equiv> external_handler Handle_jtag_request_set_out_buffer"
abbreviation "handle_jtag_request_get_in_buffer \<equiv> external_handler Handle_jtag_request_get_in_buffer"
abbreviation "handle_jtag_request_scan \<equiv> external_handler Handle_jtag_request_scan"
abbreviation "handle_jtag_run_clock \<equiv> external_handler Handle_jtag_run_clock"
abbreviation "handle_jtag_start \<equiv> external_handler Handle_jtag_start"
abbreviation "handle_jtag_go_to_state \<equiv> external_handler Handle_jtag_go_to_state"
abbreviation "handle_jtag_stop \<equiv> external_handler Handle_jtag_stop"
abbreviation "handle_jtag_get_state \<equiv> external_handler Handle_jtag_get_state"
abbreviation "handle_debug_spi_send \<equiv> external_handler Handle_debug_spi_send"
abbreviation "handle_debug_spi_get_response \<equiv> external_handler Handle_debug_spi_get_response"
abbreviation "handle_flash_spi_send \<equiv> external_handler Handle_flash_spi_send"
abbreviation "handle_take_configuration_spi \<equiv> external_handler Handle_take_configuration_spi"
abbreviation "handle_release_configuration_spi \<equiv> external_handler Handle_release_configuration_spi"
abbreviation "handle_debug_spi_send_complete \<equiv> external_handler Handle_debug_spi_send_complete"
abbreviation "handle_flash_spi_send_complete \<equiv> external_handler Handle_flash_spi_send_complete"

subsection \<open>The handlers of vendor.c\<close>

text \<open>Lines 94 to 101.\<close>

definition handle_get_ms_descriptor ::
  "'x ext \<Rightarrow> u8 \<Rightarrow> tusb_control_request_t \<Rightarrow> 'x device \<Rightarrow> bool \<times> 'x device" where
  "handle_get_ms_descriptor ext rhport request s0 =
     (let s = enter Handle_get_ms_descriptor rhport request s0 in
      if wIndex request = 0x0004
      then tud_control_xfer ext rhport request (Some desc_ms_os_10) (sizeof desc_ms_os_10) s
      else (False, s))"

text \<open>Lines 107 to 111.\<close>

definition handle_get_id_request ::
  "'x ext \<Rightarrow> u8 \<Rightarrow> tusb_control_request_t \<Rightarrow> 'x device \<Rightarrow> bool \<times> 'x device" where
  "handle_get_id_request ext rhport request s0 =
     (let s = enter Handle_get_id_request rhport request s0 in
      tud_control_xfer ext rhport request (Some description) (sizeof description) s)"

text \<open>
  Lines 117 to 121. The 16-bit \<open>wValue\<close> is passed as the pattern; the conversion to
  the wider enum type of the parameter keeps its value.
\<close>

definition handle_set_led_pattern ::
  "'x ext \<Rightarrow> u8 \<Rightarrow> tusb_control_request_t \<Rightarrow> 'x device \<Rightarrow> bool \<times> 'x device" where
  "handle_set_led_pattern ext rhport request s0 =
     (let s = enter Handle_set_led_pattern rhport request s0;
          s = led_set_blink_pattern (wValue request) s in
      tud_control_xfer ext rhport request None 0 s)"

text \<open>Lines 127 to 131.\<close>

definition handle_trigger_fpga_reconfiguration ::
  "'x ext \<Rightarrow> u8 \<Rightarrow> tusb_control_request_t \<Rightarrow> 'x device \<Rightarrow> bool \<times> 'x device" where
  "handle_trigger_fpga_reconfiguration ext rhport request s0 =
     (let s = enter Handle_trigger_fpga_reconfiguration rhport request s0;
          s = trigger_fpga_reconfiguration ext s in
      tud_control_xfer ext rhport request None 0 s)"

text \<open>Lines 137 to 141.\<close>

definition handle_force_fpga_offline ::
  "'x ext \<Rightarrow> u8 \<Rightarrow> tusb_control_request_t \<Rightarrow> 'x device \<Rightarrow> bool \<times> 'x device" where
  "handle_force_fpga_offline ext rhport request s0 =
     (let s = enter Handle_force_fpga_offline rhport request s0;
          s = force_fpga_offline ext s in
      tud_control_xfer ext rhport request None 0 s)"

text \<open>Lines 147 to 150.\<close>

definition handle_allow_fpga_takeover_usb ::
  "'x ext \<Rightarrow> u8 \<Rightarrow> tusb_control_request_t \<Rightarrow> 'x device \<Rightarrow> bool \<times> 'x device" where
  "handle_allow_fpga_takeover_usb ext rhport request s0 =
     (let s = enter Handle_allow_fpga_takeover_usb rhport request s0 in
      tud_control_xfer ext rhport request None 0 s)"

text \<open>Lines 152 to 156.\<close>

definition handle_allow_fpga_takeover_usb_finish ::
  "'x ext \<Rightarrow> u8 \<Rightarrow> tusb_control_request_t \<Rightarrow> 'x device \<Rightarrow> bool \<times> 'x device" where
  "handle_allow_fpga_takeover_usb_finish ext rhport request s0 =
     (let s = enter Handle_allow_fpga_takeover_usb_finish rhport request s0;
          s = allow_fpga_takeover_usb ext s in
      (True, s))"

subsection \<open>The three stage dispatchers\<close>

text \<open>
  Lines 163 to 226. A \<open>switch\<close> whose every case returns is the chain of comparisons in
  the order of its labels; the five debug-SPI cases exist only when
  \<open>_BOARD_HAS_DEBUG_SPI\<close> is defined; the rail-voltage case is inside a comment.
\<close>

definition handle_vendor_request_setup ::
  "build \<Rightarrow> 'x ext \<Rightarrow> u8 \<Rightarrow> tusb_control_request_t \<Rightarrow> 'x device \<Rightarrow> bool \<times> 'x device" where
  "handle_vendor_request_setup b ext rhport request s =
     (if bRequest request = VENDOR_REQUEST_GET_ID then
        handle_get_id_request ext rhport request s
      else if bRequest request = VENDOR_REQUEST_TRIGGER_RECONFIGURATION then
        handle_trigger_fpga_reconfiguration ext rhport request s
      else if bRequest request = VENDOR_REQUEST_FORCE_FPGA_OFFLINE then
        handle_force_fpga_offline ext rhport request s
      else if bRequest request = VENDOR_REQUEST_ALLOW_FPGA_TAKEOVER_USB then
        handle_allow_fpga_takeover_usb ext rhport request s
      else if bRequest request = VENDOR_REQUEST_JTAG_CLEAR_OUT_BUFFER then
        handle_jtag_request_clear_out_buffer ext rhport request s
      else if bRequest request = VENDOR_REQUEST_JTAG_SET_OUT_BUFFER then
        handle_jtag_request_set_out_buffer ext rhport request s
      else if bRequest request = VENDOR_REQUEST_JTAG_GET_IN_BUFFER then
        handle_jtag_request_get_in_buffer ext rhport request s
      else if bRequest request = VENDOR_REQUEST_JTAG_SCAN then
        handle_jtag_request_scan ext rhport request s
      else if bRequest request = VENDOR_REQUEST_JTAG_RUN_CLOCK then
        handle_jtag_run_clock ext rhport request s
      else if bRequest request = VENDOR_REQUEST_JTAG_START then
        handle_jtag_start ext rhport request s
      else if bRequest request = VENDOR_REQUEST_JTAG_GOTO_STATE then
        handle_jtag_go_to_state ext rhport request s
      else if bRequest request = VENDOR_REQUEST_JTAG_STOP then
        handle_jtag_stop ext rhport request s
      else if bRequest request = VENDOR_REQUEST_JTAG_GET_STATE then
        handle_jtag_get_state ext rhport request s
      else if bRequest request = VENDOR_REQUEST_SET_LED_PATTERN then
        handle_set_led_pattern ext rhport request s
      else if BOARD_HAS_DEBUG_SPI b \<and> bRequest request = VENDOR_REQUEST_DEBUG_SPI_SEND then
        handle_debug_spi_send ext rhport request s
      else if BOARD_HAS_DEBUG_SPI b \<and> bRequest request = VENDOR_REQUEST_DEBUG_SPI_READ_RESPONSE then
        handle_debug_spi_get_response ext rhport request s
      else if BOARD_HAS_DEBUG_SPI b \<and> bRequest request = VENDOR_REQUEST_FLASH_SPI_SEND then
        handle_flash_spi_send ext rhport request s
      else if BOARD_HAS_DEBUG_SPI b \<and> bRequest request = VENDOR_REQUEST_TAKE_FLASH_LINES then
        handle_take_configuration_spi ext rhport request s
      else if BOARD_HAS_DEBUG_SPI b \<and> bRequest request = VENDOR_REQUEST_RELEASE_FLASH_LINES then
        handle_release_configuration_spi ext rhport request s
      else if bRequest request = VENDOR_REQUEST_GET_MS_DESCRIPTOR then
        handle_get_ms_descriptor ext rhport request s
      else (False, s))"

text \<open>Lines 234 to 245; these two cases are not under the preprocessor guard.\<close>

definition handle_vendor_request_complete ::
  "'x ext \<Rightarrow> u8 \<Rightarrow> tusb_control_request_t \<Rightarrow> 'x device \<Rightarrow> bool \<times> 'x device" where
  "handle_vendor_request_complete ext rhport request s =
     (if bRequest request = VENDOR_REQUEST_DEBUG_SPI_SEND then
        handle_debug_spi_send_complete ext rhport request s
      else if bRequest request = VENDOR_REQUEST_FLASH_SPI_SEND then
        handle_flash_spi_send_complete ext rhport request s
      else (True, s))"

text \<open>Lines 250 to 258.\<close>

definition handle_vendor_request_finish ::
  "'x ext \<Rightarrow> u8 \<Rightarrow> tusb_control_request_t \<Rightarrow> 'x device \<Rightarrow> bool \<times> 'x device" where
  "handle_vendor_request_finish ext rhport request s =
     (if bRequest request = VENDOR_REQUEST_ALLOW_FPGA_TAKEOVER_USB then
        handle_allow_fpga_takeover_usb_finish ext rhport request s
      else (True, s))"

text \<open>Lines 261 to 275.\<close>

definition tud_vendor_control_xfer_cb ::
  "build \<Rightarrow> 'x ext \<Rightarrow> u8 \<Rightarrow> u8 \<Rightarrow> tusb_control_request_t \<Rightarrow> 'x device \<Rightarrow> bool \<times> 'x device" where
  "tud_vendor_control_xfer_cb b ext rhport stage request s =
     (if stage = CONTROL_STAGE_SETUP b then handle_vendor_request_setup b ext rhport request s
      else if stage = CONTROL_STAGE_DATA b then handle_vendor_request_complete ext rhport request s
      else if stage = CONTROL_STAGE_ACK b then handle_vendor_request_finish ext rhport request s
      else (True, s))"

subsection \<open>Reading the trace and the stage tables\<close>

text \<open>The handlers entered, in order, with the arguments they were entered with.\<close>

fun handlers_invoked :: "event list \<Rightarrow> (handler \<times> u8 \<times> tusb_control_request_t) list" where
  "handlers_invoked [] = []"
| "handlers_invoked (Handler h rhport request # es) = (h, rhport, request) # handlers_invoked es"
| "handlers_invoked (_ # es) = handlers_invoked es"

text \<open>The buffers and lengths handed to \<open>tud_control_xfer\<close>, in order.\<close>

fun transfers :: "event list \<Rightarrow> (u8 list option \<times> u16) list" where
  "transfers [] = []"
| "transfers (Tud_control_xfer rhport request buffer len # es) = (buffer, len) # transfers es"
| "transfers (_ # es) = transfers es"

text \<open>
  The case labels of the three \<open>switch\<close> statements with the handler each one returns
  into, in the order of the source. These lists are read off the labels alone; that the
  dispatchers behave as the lists say is proved below.
\<close>

definition setup_table :: "build \<Rightarrow> (u8 \<times> handler) list" where
  "setup_table b =
     [(VENDOR_REQUEST_GET_ID, Handle_get_id_request),
      (VENDOR_REQUEST_TRIGGER_RECONFIGURATION, Handle_trigger_fpga_reconfiguration),
      (VENDOR_REQUEST_FORCE_FPGA_OFFLINE, Handle_force_fpga_offline),
      (VENDOR_REQUEST_ALLOW_FPGA_TAKEOVER_USB, Handle_allow_fpga_takeover_usb),
      (VENDOR_REQUEST_JTAG_CLEAR_OUT_BUFFER, Handle_jtag_request_clear_out_buffer),
      (VENDOR_REQUEST_JTAG_SET_OUT_BUFFER, Handle_jtag_request_set_out_buffer),
      (VENDOR_REQUEST_JTAG_GET_IN_BUFFER, Handle_jtag_request_get_in_buffer),
      (VENDOR_REQUEST_JTAG_SCAN, Handle_jtag_request_scan),
      (VENDOR_REQUEST_JTAG_RUN_CLOCK, Handle_jtag_run_clock),
      (VENDOR_REQUEST_JTAG_START, Handle_jtag_start),
      (VENDOR_REQUEST_JTAG_GOTO_STATE, Handle_jtag_go_to_state),
      (VENDOR_REQUEST_JTAG_STOP, Handle_jtag_stop),
      (VENDOR_REQUEST_JTAG_GET_STATE, Handle_jtag_get_state),
      (VENDOR_REQUEST_SET_LED_PATTERN, Handle_set_led_pattern)] @
     (if BOARD_HAS_DEBUG_SPI b then
        [(VENDOR_REQUEST_DEBUG_SPI_SEND, Handle_debug_spi_send),
         (VENDOR_REQUEST_DEBUG_SPI_READ_RESPONSE, Handle_debug_spi_get_response),
         (VENDOR_REQUEST_FLASH_SPI_SEND, Handle_flash_spi_send),
         (VENDOR_REQUEST_TAKE_FLASH_LINES, Handle_take_configuration_spi),
         (VENDOR_REQUEST_RELEASE_FLASH_LINES, Handle_release_configuration_spi)]
      else []) @
     [(VENDOR_REQUEST_GET_MS_DESCRIPTOR, Handle_get_ms_descriptor)]"

definition data_table :: "(u8 \<times> handler) list" where
  "data_table =
     [(VENDOR_REQUEST_DEBUG_SPI_SEND, Handle_debug_spi_send_complete),
      (VENDOR_REQUEST_FLASH_SPI_SEND, Handle_flash_spi_send_complete)]"

definition finish_table :: "(u8 \<times> handler) list" where
  "finish_table =
     [(VENDOR_REQUEST_ALLOW_FPGA_TAKEOVER_USB, Handle_allow_fpga_takeover_usb_finish)]"

text \<open>The value of a little-endian field, given its bytes.\<close>

fun read_le :: "u8 list \<Rightarrow> nat" where
  "read_le [] = 0"
| "read_le (x # xs) = unat x + 256 * read_le xs"

subsection \<open>Concrete inputs\<close>

text \<open>
  Values on which the model is run: collaborators that accept every call and keep no
  state, a device that has done nothing yet, a build without debug SPI whose stage
  constants are 1, 2 and 3, and a request with a given opcode, value, index and length.
\<close>

definition ext_accept :: "unit ext" where
  "ext_accept e x = (True, x)"

definition idle_device :: "unit device" where
  "idle_device = \<lparr>blink_pattern = 0, collab = (), trace = []\<rparr>"

definition plain_build :: build where
  "plain_build = \<lparr>BOARD_HAS_DEBUG_SPI = False, CONTROL_STAGE_SETUP = 1,
                   CONTROL_STAGE_DATA = 2, CONTROL_STAGE_ACK = 3\<rparr>"

definition vendor_request :: "u8 \<Rightarrow> u16 \<Rightarrow> u16 \<Rightarrow> u16 \<Rightarrow> tusb_control_request_t" where
  "vendor_request opc v i n =
     \<lparr>bmRequestType = 0xc0, bRequest = opc, wValue = v, wIndex = i, wLength = n\<rparr>"

section \<open>Basic facts\<close>

lemmas vendor_request_defs =
  VENDOR_REQUEST_GET_ID_def VENDOR_REQUEST_SET_LED_PATTERN_def
  VENDOR_REQUEST_JTAG_START_def VENDOR_REQUEST_JTAG_STOP_def
  VENDOR_REQUEST_JTAG_CLEAR_OUT_BUFFER_def VENDOR_REQUEST_JTAG_SET_OUT_BUFFER_def
  VENDOR_REQUEST_JTAG_GET_IN_BUFFER_def VENDOR_REQUEST_JTAG_SCAN_def
  VENDOR_REQUEST_JTAG_RUN_CLOCK_def VENDOR_REQUEST_JTAG_GOTO_STATE_def
  VENDOR_REQUEST_JTAG_GET_STATE_def VENDOR_REQUEST_JTAG_BULK_SCAN_def
  VENDOR_REQUEST_TRIGGER_RECONFIGURATION_def VENDOR_REQUEST_FORCE_FPGA_OFFLINE_def
  VENDOR_REQUEST_ALLOW_FPGA_TAKEOVER_USB_def VENDOR_REQUEST_DEBUG_SPI_SEND_def
  VENDOR_REQUEST_DEBUG_SPI_READ_RESPONSE_def VENDOR_REQUEST_FLASH_SPI_SEND_def
  VENDOR_REQUEST_TAKE_FLASH_LINES_def VENDOR_REQUEST_RELEASE_FLASH_LINES_def
  VENDOR_REQUEST_GET_RAIL_VOLTAGE_def VENDOR_REQUEST_GET_MS_DESCRIPTOR_def

lemmas handler_defs =
  handle_get_ms_descriptor_def handle_get_id_request_def handle_set_led_pattern_def
  handle_trigger_fpga_reconfiguration_def handle_force_fpga_offline_def
  handle_allow_fpga_takeover_usb_def handle_allow_fpga_takeover_usb_finish_def
  external_handler_def tud_control_xfer_def led_set_blink_pattern_def
  trigger_fpga_reconfiguration_def force_fpga_offline_def allow_fpga_takeover_usb_def

lemma handlers_invoked_append [simp]:
  "handlers_invoked (xs @ ys) = handlers_invoked xs @ handlers_invoked ys"
  by (induction xs rule: handlers_invoked.induct) simp_all

lemma transfers_append [simp]:
  "transfers (xs @ ys) = transfers xs @ transfers ys"
  by (induction xs rule: transfers.induct) simp_all

lemma trace_enter [simp]:
  "trace (enter h rhport request s) = trace s @ [Handler h rhport request]"
  by (simp add: enter_def)

lemma collab_enter [simp]: "collab (enter h rhport request s) = collab s"
  by (simp add: enter_def)

lemma blink_pattern_enter [simp]:
  "blink_pattern (enter h rhport request s) = blink_pattern s"
  by (simp add: enter_def)

lemma trace_extern [simp]: "trace (snd (extern ext e s)) = trace s @ [e]"
  by (simp add: extern_def)

lemma fst_extern [simp]: "fst (extern ext e s) = fst (ext e (collab s))"
  by (simp add: extern_def)

lemma collab_extern [simp]: "collab (snd (extern ext e s)) = snd (ext e (collab s))"
  by (simp add: extern_def)

lemma blink_pattern_extern [simp]: "blink_pattern (snd (extern ext e s)) = blink_pattern s"
  by (simp add: extern_def)

lemma length_desc_ms_os_10: "length desc_ms_os_10 = 40"
  by (simp add: desc_ms_os_10_def U32_TO_U8S_LE_def U16_TO_U8S_LE_def)

lemma desc_ms_os_10_bytes:
  "desc_ms_os_10 =
     [0x28, 0x00, 0x00, 0x00, 0x00, 0x01, 0x04, 0x00,
      0x01, 0x00, 0x00, 0x00, 0x00, 0x00, 0x00, 0x00,
      0x02, 0x01, 0x57, 0x49, 0x4e, 0x55, 0x53, 0x42,
      0x00, 0x00, 0x00, 0x00, 0x00, 0x00, 0x00, 0x00,
      0x00, 0x00, 0x00, 0x00, 0x00, 0x00, 0x00, 0x00]"
  by (simp add: desc_ms_os_10_def U32_TO_U8S_LE_def U16_TO_U8S_LE_def chr_def)

lemma sizeof_desc_ms_os_10: "sizeof desc_ms_os_10 = 40"
  by (simp add: sizeof_def length_desc_ms_os_10)

lemma length_description: "length description = 20"
  by (simp add: description_def string_literal_def)

lemma sizeof_description: "sizeof description = 20"
  by (simp add: sizeof_def length_description)

text \<open>The opcodes that have a case in the Setup switch, as numbers.\<close>

lemma setup_opcodes:
  "fst ` set (setup_table b) =
     {0xa0, 0xc0, 0xc1, 0xc2, 0xb0, 0xb1, 0xb2, 0xb3, 0xb4, 0xbf, 0xb5, 0xbe, 0xb6, 0xa1, 0xee}
     \<union> (if BOARD_HAS_DEBUG_SPI b then {0x50, 0x51, 0x52, 0x53, 0x54} else {})"
  by (cases "BOARD_HAS_DEBUG_SPI b")
     (auto simp add: setup_table_def vendor_request_defs)

text \<open>
  The Data and Finish lists are right about the opcodes they do contain: each one enters
  the handler listed for it.
\<close>

lemma data_table_invokes:
  assumes "(opc, h) \<in> set data_table" and "bRequest request = opc"
  shows "handle_vendor_request_complete ext rhport request s =
           extern ext (Handler h rhport request) s"
  using assms
  by (auto simp add: data_table_def handle_vendor_request_complete_def vendor_request_defs
        external_handler_def)

lemma finish_table_invokes:
  assumes "(opc, h) \<in> set finish_table" and "bRequest request = opc"
  shows "handlers_invoked (trace (snd (handle_vendor_request_finish ext rhport request s))) =
           handlers_invoked (trace s) @ [(h, rhport, request)]"
  using assms
  by (auto simp add: finish_table_def handle_vendor_request_finish_def handler_defs Let_def)

section \<open>The claims\<close>

text \<open>
  C1. For a request whose opcode is 0xC2 (\<open>VENDOR_REQUEST_ALLOW_FPGA_TAKEOVER_USB\<close>):
  Setup-stage dispatch enters \<open>handle_allow_fpga_takeover_usb\<close> and submits a
  zero-length transfer, and makes no call to \<open>allow_fpga_takeover_usb\<close>; Data-stage
  dispatch does nothing at all; Finish-stage dispatch enters the finish handler and
  makes exactly one call, which is \<open>allow_fpga_takeover_usb\<close>.
\<close>

theorem takeover_action_only_at_finish:
  assumes "bRequest request = VENDOR_REQUEST_ALLOW_FPGA_TAKEOVER_USB"
  shows "trace (snd (handle_vendor_request_setup b ext rhport request s)) =
           trace s @ [Handler Handle_allow_fpga_takeover_usb rhport request,
                      Tud_control_xfer rhport request None 0]
       \<and> count_list (trace (snd (handle_vendor_request_setup b ext rhport request s)))
             Allow_fpga_takeover_usb
           = count_list (trace s) Allow_fpga_takeover_usb
       \<and> handle_vendor_request_complete ext rhport request s = (True, s)
       \<and> trace (snd (handle_vendor_request_finish ext rhport request s)) =
           trace s @ [Handler Handle_allow_fpga_takeover_usb_finish rhport request,
                      Allow_fpga_takeover_usb]
       \<and> count_list (trace (snd (handle_vendor_request_finish ext rhport request s)))
             Allow_fpga_takeover_usb
           = Suc (count_list (trace s) Allow_fpga_takeover_usb)"
proof -
  have at_setup: "handle_vendor_request_setup b ext rhport request s =
                 handle_allow_fpga_takeover_usb ext rhport request s"
    using assms by (simp add: handle_vendor_request_setup_def vendor_request_defs)
  have at_data: "handle_vendor_request_complete ext rhport request s = (True, s)"
    using assms by (simp add: handle_vendor_request_complete_def vendor_request_defs)
  have at_finish: "handle_vendor_request_finish ext rhport request s =
                  handle_allow_fpga_takeover_usb_finish ext rhport request s"
    using assms by (simp add: handle_vendor_request_finish_def)
  show ?thesis
    unfolding at_setup at_data at_finish
    by (simp add: handler_defs Let_def)
qed

theorem takeover_action_only_at_finish_witness:
  "bRequest (vendor_request 0xc2 0 0 0) = VENDOR_REQUEST_ALLOW_FPGA_TAKEOVER_USB
   \<and> trace (snd (handle_vendor_request_setup plain_build ext_accept 0
                    (vendor_request 0xc2 0 0 0) idle_device)) =
       [Handler Handle_allow_fpga_takeover_usb 0 (vendor_request 0xc2 0 0 0),
        Tud_control_xfer 0 (vendor_request 0xc2 0 0 0) None 0]
   \<and> trace (snd (handle_vendor_request_finish ext_accept 0
                    (vendor_request 0xc2 0 0 0) idle_device)) =
       [Handler Handle_allow_fpga_takeover_usb_finish 0 (vendor_request 0xc2 0 0 0),
        Allow_fpga_takeover_usb]"
proof -
  have h: "bRequest (vendor_request 0xc2 0 0 0) = VENDOR_REQUEST_ALLOW_FPGA_TAKEOVER_USB"
    by (simp add: vendor_request_def VENDOR_REQUEST_ALLOW_FPGA_TAKEOVER_USB_def)
  show ?thesis
    using h takeover_action_only_at_finish
            [OF h, where b = plain_build and ext = ext_accept and rhport = 0 and s = idle_device]
    by (simp add: idle_device_def)
qed

text \<open>
  C2. For a request whose opcode is 0xEE at the Setup stage: when \<open>wIndex\<close> is 0x0004
  the dispatch enters \<open>handle_get_ms_descriptor\<close>, hands \<open>desc_ms_os_10\<close> with length
  40 to \<open>tud_control_xfer\<close> and returns what that call returns; the block has 40 bytes,
  listed here one by one. For every other \<open>wIndex\<close> the dispatch returns false and
  submits nothing.
\<close>

theorem ms_descriptor_served_on_index_4:
  assumes "bRequest request = VENDOR_REQUEST_GET_MS_DESCRIPTOR"
  shows "(wIndex request = 0x0004 \<longrightarrow>
            trace (snd (handle_vendor_request_setup b ext rhport request s)) =
              trace s @ [Handler Handle_get_ms_descriptor rhport request,
                         Tud_control_xfer rhport request (Some desc_ms_os_10) 40]
          \<and> fst (handle_vendor_request_setup b ext rhport request s) =
              fst (ext (Tud_control_xfer rhport request (Some desc_ms_os_10) 40) (collab s)))
       \<and> (wIndex request \<noteq> 0x0004 \<longrightarrow>
            handle_vendor_request_setup b ext rhport request s =
              (False, enter Handle_get_ms_descriptor rhport request s))
       \<and> length desc_ms_os_10 = 40
       \<and> desc_ms_os_10 =
           [0x28, 0x00, 0x00, 0x00, 0x00, 0x01, 0x04, 0x00,
            0x01, 0x00, 0x00, 0x00, 0x00, 0x00, 0x00, 0x00,
            0x02, 0x01, 0x57, 0x49, 0x4e, 0x55, 0x53, 0x42,
            0x00, 0x00, 0x00, 0x00, 0x00, 0x00, 0x00, 0x00,
            0x00, 0x00, 0x00, 0x00, 0x00, 0x00, 0x00, 0x00]"
proof -
  have at_setup: "handle_vendor_request_setup b ext rhport request s =
                 handle_get_ms_descriptor ext rhport request s"
    using assms by (simp add: handle_vendor_request_setup_def vendor_request_defs)
  have served: "wIndex request = 0x0004 \<longrightarrow>
      trace (snd (handle_get_ms_descriptor ext rhport request s)) =
        trace s @ [Handler Handle_get_ms_descriptor rhport request,
                   Tud_control_xfer rhport request (Some desc_ms_os_10) 40]
      \<and> fst (handle_get_ms_descriptor ext rhport request s) =
          fst (ext (Tud_control_xfer rhport request (Some desc_ms_os_10) 40) (collab s))"
    by (simp add: handle_get_ms_descriptor_def tud_control_xfer_def Let_def sizeof_desc_ms_os_10)
  have declined: "wIndex request \<noteq> 0x0004 \<longrightarrow>
      handle_get_ms_descriptor ext rhport request s =
        (False, enter Handle_get_ms_descriptor rhport request s)"
    by (simp add: handle_get_ms_descriptor_def Let_def)
  show ?thesis
    unfolding at_setup
    using served declined length_desc_ms_os_10 desc_ms_os_10_bytes by blast
qed

theorem ms_descriptor_served_on_index_4_witness:
  "bRequest (vendor_request 0xee 0 4 40) = VENDOR_REQUEST_GET_MS_DESCRIPTOR
   \<and> wIndex (vendor_request 0xee 0 4 40) = 0x0004
   \<and> fst (handle_vendor_request_setup plain_build ext_accept 0 (vendor_request 0xee 0 4 40) idle_device)
   \<and> trace (snd (handle_vendor_request_setup plain_build ext_accept 0 (vendor_request 0xee 0 4 40) idle_device)) =
       [Handler Handle_get_ms_descriptor 0 (vendor_request 0xee 0 4 40),
        Tud_control_xfer 0 (vendor_request 0xee 0 4 40) (Some desc_ms_os_10) 40]
   \<and> bRequest (vendor_request 0xee 0 5 40) = VENDOR_REQUEST_GET_MS_DESCRIPTOR
   \<and> wIndex (vendor_request 0xee 0 5 40) \<noteq> 0x0004
   \<and> handle_vendor_request_setup plain_build ext_accept 0 (vendor_request 0xee 0 5 40) idle_device =
       (False, \<lparr>blink_pattern = 0, collab = (),
                trace = [Handler Handle_get_ms_descriptor 0 (vendor_request 0xee 0 5 40)]\<rparr>)"
proof -
  have h4: "bRequest (vendor_request 0xee 0 4 40) = VENDOR_REQUEST_GET_MS_DESCRIPTOR"
    and h5: "bRequest (vendor_request 0xee 0 5 40) = VENDOR_REQUEST_GET_MS_DESCRIPTOR"
    by (simp_all add: vendor_request_def VENDOR_REQUEST_GET_MS_DESCRIPTOR_def)
  have i4: "wIndex (vendor_request 0xee 0 4 40) = 0x0004"
    and i5: "wIndex (vendor_request 0xee 0 5 40) \<noteq> 0x0004"
    by (simp_all add: vendor_request_def)
  note served = ms_descriptor_served_on_index_4
    [OF h4, where b = plain_build and ext = ext_accept and rhport = 0 and s = idle_device]
  note declined = ms_descriptor_served_on_index_4
    [OF h5, where b = plain_build and ext = ext_accept and rhport = 0 and s = idle_device]
  have r4: "fst (handle_vendor_request_setup plain_build ext_accept 0 (vendor_request 0xee 0 4 40) idle_device)
     \<and> trace (snd (handle_vendor_request_setup plain_build ext_accept 0 (vendor_request 0xee 0 4 40) idle_device)) =
       [Handler Handle_get_ms_descriptor 0 (vendor_request 0xee 0 4 40),
        Tud_control_xfer 0 (vendor_request 0xee 0 4 40) (Some desc_ms_os_10) 40]"
    using served i4 by (simp add: idle_device_def ext_accept_def)
  have r5: "handle_vendor_request_setup plain_build ext_accept 0 (vendor_request 0xee 0 5 40) idle_device =
       (False, \<lparr>blink_pattern = 0, collab = (),
                trace = [Handler Handle_get_ms_descriptor 0 (vendor_request 0xee 0 5 40)]\<rparr>)"
    using declined i5 by (simp add: idle_device_def enter_def)
  show ?thesis using h4 h5 i4 i5 r4 r5 by blast
qed


text \<open>
  C3. For a request whose opcode is 0xA0 at the Setup stage the dispatch enters
  \<open>handle_get_id_request\<close> and hands \<open>description\<close> to \<open>tud_control_xfer\<close> with
  length \<open>sizeof(description)\<close>, returning what that call returns. The payload is the
  19 characters of "Apollo Debug Module" followed by the terminating NUL, and the
  declared length is 20.
\<close>

theorem identify_payload_is_20_bytes:
  assumes "bRequest request = VENDOR_REQUEST_GET_ID"
  shows "trace (snd (handle_vendor_request_setup b ext rhport request s)) =
           trace s @ [Handler Handle_get_id_request rhport request,
                      Tud_control_xfer rhport request (Some description) (sizeof description)]
       \<and> fst (handle_vendor_request_setup b ext rhport request s) =
           fst (ext (Tud_control_xfer rhport request (Some description) (sizeof description))
                  (collab s))
       \<and> description = map chr ''Apollo Debug Module'' @ [0]
       \<and> length ''Apollo Debug Module'' = 19
       \<and> length description = 20
       \<and> sizeof description = 20"
proof -
  have at_setup: "handle_vendor_request_setup b ext rhport request s =
                    handle_get_id_request ext rhport request s"
    using assms by (simp add: handle_vendor_request_setup_def)
  have payload: "description = map chr ''Apollo Debug Module'' @ [0]"
    by (simp add: description_def string_literal_def)
  show ?thesis
    unfolding at_setup
    using payload length_description sizeof_description
    by (simp add: handle_get_id_request_def tud_control_xfer_def Let_def)
qed

theorem identify_payload_is_20_bytes_witness:
  "bRequest (vendor_request 0xa0 0 0 64) = VENDOR_REQUEST_GET_ID
   \<and> fst (handle_vendor_request_setup plain_build ext_accept 0 (vendor_request 0xa0 0 0 64) idle_device)
   \<and> trace (snd (handle_vendor_request_setup plain_build ext_accept 0
                    (vendor_request 0xa0 0 0 64) idle_device)) =
       [Handler Handle_get_id_request 0 (vendor_request 0xa0 0 0 64),
        Tud_control_xfer 0 (vendor_request 0xa0 0 0 64) (Some description) 20]"
proof -
  have h: "bRequest (vendor_request 0xa0 0 0 64) = VENDOR_REQUEST_GET_ID"
    by (simp add: vendor_request_def VENDOR_REQUEST_GET_ID_def)
  show ?thesis
    using h identify_payload_is_20_bytes
            [OF h, where b = plain_build and ext = ext_accept and rhport = 0 and s = idle_device]
    by (simp add: idle_device_def ext_accept_def)
qed

text \<open>
  C3, the length of 18 bytes: on an idle device the identify request submits one
  transfer, which carries \<open>description\<close> with length 20, so the payload is not an
  18-byte string.
\<close>

theorem identify_length_is_not_18:
  "transfers (trace (snd (handle_vendor_request_setup plain_build ext_accept 0
                            (vendor_request 0xa0 0 0 64) idle_device))) =
     [(Some description, 20)]
   \<and> length description \<noteq> 18
   \<and> sizeof description \<noteq> 18"
  by (simp add: handle_vendor_request_setup_def vendor_request_def VENDOR_REQUEST_GET_ID_def
        handle_get_id_request_def tud_control_xfer_def Let_def idle_device_def
        sizeof_description length_description)

text \<open>
  C4. For every opcode that has no case in the Setup switch, Setup-stage dispatch
  returns false and leaves the device as it was: no handler is entered and no call is
  made. 0xE0 is such an opcode in every build, and 0x50 to 0x54 are when the build has
  no debug SPI.
\<close>

theorem setup_rejects_unlisted_opcodes:
  "(bRequest request \<notin> fst ` set (setup_table b) \<longrightarrow>
      handle_vendor_request_setup b ext rhport request s = (False, s))
   \<and> 0xe0 \<notin> fst ` set (setup_table b)
   \<and> (\<not> BOARD_HAS_DEBUG_SPI b \<longrightarrow>
        fst ` set (setup_table b) \<inter> {0x50, 0x51, 0x52, 0x53, 0x54} = {})"
proof -
  have reject: "bRequest request \<notin> fst ` set (setup_table b) \<longrightarrow>
                  handle_vendor_request_setup b ext rhport request s = (False, s)"
    by (cases "BOARD_HAS_DEBUG_SPI b")
       (simp_all add: setup_table_def handle_vendor_request_setup_def)
  have rail: "0xe0 \<notin> fst ` set (setup_table b)"
    by (simp add: setup_opcodes)
  have spi: "\<not> BOARD_HAS_DEBUG_SPI b \<longrightarrow>
               fst ` set (setup_table b) \<inter> {0x50, 0x51, 0x52, 0x53, 0x54} = {}"
    by (simp add: setup_opcodes)
  show ?thesis using reject rail spi by blast
qed

theorem setup_rejects_unlisted_opcodes_witness:
  "bRequest (vendor_request 0x50 0 0 0) \<notin> fst ` set (setup_table plain_build)
   \<and> \<not> BOARD_HAS_DEBUG_SPI plain_build
   \<and> handle_vendor_request_setup plain_build ext_accept 0 (vendor_request 0x50 0 0 0) idle_device =
       (False, idle_device)
   \<and> bRequest (vendor_request 0xb7 0 0 0) \<notin> fst ` set (setup_table plain_build)
   \<and> handle_vendor_request_setup plain_build ext_accept 0 (vendor_request 0xb7 0 0 0) idle_device =
       (False, idle_device)"
proof -
  have h1: "bRequest (vendor_request 0x50 0 0 0) \<notin> fst ` set (setup_table plain_build)"
    and h2: "bRequest (vendor_request 0xb7 0 0 0) \<notin> fst ` set (setup_table plain_build)"
    by (simp_all add: setup_opcodes vendor_request_def plain_build_def)
  have h3: "\<not> BOARD_HAS_DEBUG_SPI plain_build"
    by (simp add: plain_build_def)
  show ?thesis
    using h1 h2 h3
      setup_rejects_unlisted_opcodes
        [where request = "vendor_request 0x50 0 0 0" and b = plain_build and ext = ext_accept
           and rhport = 0 and s = idle_device]
      setup_rejects_unlisted_opcodes
        [where request = "vendor_request 0xb7 0 0 0" and b = plain_build and ext = ext_accept
           and rhport = 0 and s = idle_device]
    by blast
qed

text \<open>
  C5. For every opcode that has a case in the Setup switch, Setup-stage dispatch enters
  exactly one handler, once, and it is the handler of that case, entered with the
  dispatcher's own arguments. No opcode appears in two cases and no handler is the
  target of two cases.
\<close>

theorem setup_invokes_bound_handler:
  assumes "(opc, h) \<in> set (setup_table b)" and "bRequest request = opc"
  shows "handlers_invoked (trace (snd (handle_vendor_request_setup b ext rhport request s))) =
           handlers_invoked (trace s) @ [(h, rhport, request)]
       \<and> distinct (map fst (setup_table b))
       \<and> distinct (map snd (setup_table b))"
proof -
  have one: "handlers_invoked (trace (snd (handle_vendor_request_setup b ext rhport request s))) =
               handlers_invoked (trace s) @ [(h, rhport, request)]"
    using assms
    by (cases "BOARD_HAS_DEBUG_SPI b")
       (auto simp add: setup_table_def handle_vendor_request_setup_def vendor_request_defs
          handler_defs Let_def)
  have keys: "distinct (map fst (setup_table b))"
    by (cases "BOARD_HAS_DEBUG_SPI b") (simp_all add: setup_table_def vendor_request_defs)
  have targets: "distinct (map snd (setup_table b))"
    by (cases "BOARD_HAS_DEBUG_SPI b") (simp_all add: setup_table_def)
  show ?thesis using one keys targets by blast
qed

theorem setup_invokes_bound_handler_witness:
  "(0xa1, Handle_set_led_pattern) \<in> set (setup_table plain_build)
   \<and> bRequest (vendor_request 0xa1 500 0 0) = 0xa1
   \<and> handlers_invoked (trace (snd (handle_vendor_request_setup plain_build ext_accept 0
                                      (vendor_request 0xa1 500 0 0) idle_device))) =
       [(Handle_set_led_pattern, 0, vendor_request 0xa1 500 0 0)]"
proof -
  have h1: "(0xa1, Handle_set_led_pattern) \<in> set (setup_table plain_build)"
    by (simp add: setup_table_def vendor_request_defs)
  have h2: "bRequest (vendor_request 0xa1 500 0 0) = 0xa1"
    by (simp add: vendor_request_def)
  show ?thesis
    using h1 h2 setup_invokes_bound_handler
            [OF h1 h2, where ext = ext_accept and rhport = 0 and s = idle_device]
    by (simp add: idle_device_def)
qed

text \<open>
  C6. For every opcode that has no case in the Data-stage switch, Data-stage dispatch
  returns true and leaves the device as it was; for every opcode that has no case in the
  Finish-stage switch, Finish-stage dispatch returns true and leaves the device as it
  was. In both stages no handler is entered.
\<close>

theorem data_and_finish_absent_is_noop:
  "(bRequest request \<notin> fst ` set data_table \<longrightarrow>
      handle_vendor_request_complete ext rhport request s = (True, s))
   \<and> (bRequest request \<notin> fst ` set finish_table \<longrightarrow>
      handle_vendor_request_finish ext rhport request s = (True, s))"
  by (simp add: data_table_def finish_table_def handle_vendor_request_complete_def
        handle_vendor_request_finish_def)

theorem data_and_finish_absent_is_noop_witness:
  "bRequest (vendor_request 0xa0 0 0 64) \<notin> fst ` set data_table
   \<and> bRequest (vendor_request 0xa0 0 0 64) \<notin> fst ` set finish_table
   \<and> handle_vendor_request_complete ext_accept 0 (vendor_request 0xa0 0 0 64) idle_device =
       (True, idle_device)
   \<and> handle_vendor_request_finish ext_accept 0 (vendor_request 0xa0 0 0 64) idle_device =
       (True, idle_device)"
proof -
  have h1: "bRequest (vendor_request 0xa0 0 0 64) \<notin> fst ` set data_table"
    by (simp add: data_table_def vendor_request_defs vendor_request_def)
  have h2: "bRequest (vendor_request 0xa0 0 0 64) \<notin> fst ` set finish_table"
    by (simp add: finish_table_def vendor_request_defs vendor_request_def)
  show ?thesis
    using h1 h2 data_and_finish_absent_is_noop
            [where request = "vendor_request 0xa0 0 0 64" and ext = ext_accept and rhport = 0
               and s = idle_device]
    by blast
qed

text \<open>
  C7. Two Setup-stage dispatches of opcode 0xA1 with the same \<open>wValue\<close> leave the
  active blink pattern as one dispatch leaves it, namely equal to \<open>wValue\<close>; the same
  holds for \<open>handle_set_led_pattern\<close> applied twice to one request.
\<close>

theorem led_pattern_idempotent:
  assumes "bRequest r1 = VENDOR_REQUEST_SET_LED_PATTERN"
    and "bRequest r2 = VENDOR_REQUEST_SET_LED_PATTERN"
    and "wValue r1 = wValue r2"
  shows "blink_pattern (snd (handle_vendor_request_setup b ext p2 r2
                               (snd (handle_vendor_request_setup b ext p1 r1 s)))) =
           blink_pattern (snd (handle_vendor_request_setup b ext p1 r1 s))
       \<and> blink_pattern (snd (handle_vendor_request_setup b ext p1 r1 s)) = wValue r1
       \<and> blink_pattern (snd (handle_set_led_pattern ext p1 r1
                               (snd (handle_set_led_pattern ext p1 r1 s)))) =
           blink_pattern (snd (handle_set_led_pattern ext p1 r1 s))"
proof -
  have at_setup: "handle_vendor_request_setup b ext p r t = handle_set_led_pattern ext p r t"
    if "bRequest r = VENDOR_REQUEST_SET_LED_PATTERN" for p r and t :: "'a device"
    using that by (simp add: handle_vendor_request_setup_def vendor_request_defs)
  have stored: "blink_pattern (snd (handle_set_led_pattern ext p r t)) = wValue r"
    for p r and t :: "'a device"
    by (simp add: handle_set_led_pattern_def tud_control_xfer_def led_set_blink_pattern_def
          enter_def Let_def)
  show ?thesis
    using assms by (simp add: at_setup stored)
qed

theorem led_pattern_idempotent_witness:
  "bRequest (vendor_request 0xa1 500 0 0) = VENDOR_REQUEST_SET_LED_PATTERN
   \<and> wValue (vendor_request 0xa1 500 0 0) = wValue (vendor_request 0xa1 500 0 0)
   \<and> blink_pattern (snd (handle_vendor_request_setup plain_build ext_accept 0
                            (vendor_request 0xa1 500 0 0)
                            (snd (handle_vendor_request_setup plain_build ext_accept 0
                                    (vendor_request 0xa1 500 0 0) idle_device)))) = 500
   \<and> blink_pattern (snd (handle_vendor_request_setup plain_build ext_accept 0
                            (vendor_request 0xa1 500 0 0) idle_device)) = 500"
proof -
  have h: "bRequest (vendor_request 0xa1 500 0 0) = VENDOR_REQUEST_SET_LED_PATTERN"
    by (simp add: vendor_request_def VENDOR_REQUEST_SET_LED_PATTERN_def)
  have v: "wValue (vendor_request 0xa1 500 0 0) = 500"
    by (simp add: vendor_request_def)
  show ?thesis
    using h v led_pattern_idempotent
            [OF h h refl, where b = plain_build and ext = ext_accept and ?p1.0 = 0 and ?p2.0 = 0
               and s = idle_device]
    by simp
qed

text \<open>
  C8. The rail-voltage opcode 0xE0 is defined in the enum and has no case in the Setup
  switch: Setup-stage dispatch of a request with that opcode returns false and leaves
  the device as it was, so no handler is entered and no self-test is performed.
\<close>

theorem rail_voltage_opcode_rejected:
  assumes "bRequest request = VENDOR_REQUEST_GET_RAIL_VOLTAGE"
  shows "handle_vendor_request_setup b ext rhport request s = (False, s)
       \<and> VENDOR_REQUEST_GET_RAIL_VOLTAGE = 0xe0"
  using assms by (simp add: handle_vendor_request_setup_def vendor_request_defs)

theorem rail_voltage_opcode_rejected_witness:
  "bRequest (vendor_request 0xe0 0 0 2) = VENDOR_REQUEST_GET_RAIL_VOLTAGE
   \<and> handle_vendor_request_setup plain_build ext_accept 0 (vendor_request 0xe0 0 0 2) idle_device =
       (False, idle_device)
   \<and> handle_vendor_request_setup (plain_build\<lparr>BOARD_HAS_DEBUG_SPI := True\<rparr>) ext_accept 0
       (vendor_request 0xe0 0 0 2) idle_device = (False, idle_device)"
proof -
  have h: "bRequest (vendor_request 0xe0 0 0 2) = VENDOR_REQUEST_GET_RAIL_VOLTAGE"
    by (simp add: vendor_request_def VENDOR_REQUEST_GET_RAIL_VOLTAGE_def)
  show ?thesis
    using h
      rail_voltage_opcode_rejected
        [OF h, where b = plain_build and ext = ext_accept and rhport = 0 and s = idle_device]
      rail_voltage_opcode_rejected
        [OF h, where b = "plain_build\<lparr>BOARD_HAS_DEBUG_SPI := True\<rparr>" and ext = ext_accept
           and rhport = 0 and s = idle_device]
    by blast
qed

text \<open>
  C9. Finish-stage dispatch returns true for every request, the takeover opcode
  included, whatever the collaborators do; and \<open>tud_vendor_control_xfer_cb\<close> returns
  true, leaving the device as it was, for every stage value that is none of
  \<open>CONTROL_STAGE_SETUP\<close>, \<open>CONTROL_STAGE_DATA\<close> and \<open>CONTROL_STAGE_ACK\<close>.
\<close>

theorem finish_never_rejects:
  "fst (handle_vendor_request_finish ext rhport request s)
   \<and> fst (handle_allow_fpga_takeover_usb_finish ext rhport request s)
   \<and> (stage \<notin> {CONTROL_STAGE_SETUP b, CONTROL_STAGE_DATA b, CONTROL_STAGE_ACK b} \<longrightarrow>
        tud_vendor_control_xfer_cb b ext rhport stage request s = (True, s))"
  by (simp add: handle_vendor_request_finish_def handle_allow_fpga_takeover_usb_finish_def
        tud_vendor_control_xfer_cb_def Let_def)

theorem finish_never_rejects_witness:
  "0 \<notin> {CONTROL_STAGE_SETUP plain_build, CONTROL_STAGE_DATA plain_build,
          CONTROL_STAGE_ACK plain_build}
   \<and> tud_vendor_control_xfer_cb plain_build ext_accept 0 0 (vendor_request 0xc2 0 0 0) idle_device =
       (True, idle_device)
   \<and> fst (handle_vendor_request_finish ext_accept 0 (vendor_request 0xc2 0 0 0) idle_device)"
proof -
  have h: "0 \<notin> {CONTROL_STAGE_SETUP plain_build, CONTROL_STAGE_DATA plain_build,
                  CONTROL_STAGE_ACK plain_build}"
    by (simp add: plain_build_def)
  show ?thesis
    using h finish_never_rejects
            [where stage = 0 and b = plain_build and ext = ext_accept and rhport = 0
               and request = "vendor_request 0xc2 0 0 0" and s = idle_device]
    by blast
qed

text \<open>
  C10. The descriptor block agrees with itself and with its provider: the little-endian
  length field in its first four bytes is 40, which is the number of bytes of the block
  and the length \<open>handle_get_ms_descriptor\<close> passes when it serves the block; the
  little-endian field in bytes 6 and 7 is 4, and the provider serves the block exactly
  for the requests whose \<open>wIndex\<close> equals that field.
\<close>

theorem desc_ms_os_10_self_consistent:
  "read_le (take 4 desc_ms_os_10) = 40
   \<and> read_le (take 4 desc_ms_os_10) = length desc_ms_os_10
   \<and> unat (sizeof desc_ms_os_10) = read_le (take 4 desc_ms_os_10)
   \<and> read_le (take 2 (drop 6 desc_ms_os_10)) = 4
   \<and> (wIndex request = of_nat (read_le (take 2 (drop 6 desc_ms_os_10))) \<longrightarrow>
        transfers (trace (snd (handle_get_ms_descriptor ext rhport request s))) =
          transfers (trace s) @
            [(Some desc_ms_os_10, of_nat (read_le (take 4 desc_ms_os_10)))])
   \<and> (wIndex request \<noteq> of_nat (read_le (take 2 (drop 6 desc_ms_os_10))) \<longrightarrow>
        handle_get_ms_descriptor ext rhport request s =
          (False, enter Handle_get_ms_descriptor rhport request s))"
proof -
  have len: "read_le (take 4 desc_ms_os_10) = 40"
    by (simp add: desc_ms_os_10_bytes)
  have idx: "read_le (take 2 (drop 6 desc_ms_os_10)) = 4"
    by (simp add: desc_ms_os_10_bytes)
  have size: "unat (sizeof desc_ms_os_10) = 40"
    by (simp add: sizeof_desc_ms_os_10)
  have served: "wIndex request = 4 \<longrightarrow>
        transfers (trace (snd (handle_get_ms_descriptor ext rhport request s))) =
          transfers (trace s) @ [(Some desc_ms_os_10, 40)]"
    by (simp add: handle_get_ms_descriptor_def tud_control_xfer_def Let_def sizeof_desc_ms_os_10)
  have declined: "wIndex request \<noteq> 4 \<longrightarrow>
        handle_get_ms_descriptor ext rhport request s =
          (False, enter Handle_get_ms_descriptor rhport request s)"
    by (simp add: handle_get_ms_descriptor_def Let_def)
  show ?thesis
    using served declined by (simp add: len idx size length_desc_ms_os_10)
qed

theorem desc_ms_os_10_self_consistent_witness:
  "wIndex (vendor_request 0xee 0 4 40) = of_nat (read_le (take 2 (drop 6 desc_ms_os_10)))
   \<and> transfers (trace (snd (handle_get_ms_descriptor ext_accept 0
                               (vendor_request 0xee 0 4 40) idle_device))) =
       [(Some desc_ms_os_10, 40)]
   \<and> wIndex (vendor_request 0xee 0 0 40) \<noteq> of_nat (read_le (take 2 (drop 6 desc_ms_os_10)))
   \<and> fst (handle_get_ms_descriptor ext_accept 0 (vendor_request 0xee 0 0 40) idle_device) = False"
proof -
  have h4: "wIndex (vendor_request 0xee 0 4 40) =
              of_nat (read_le (take 2 (drop 6 desc_ms_os_10)))"
    and h0: "wIndex (vendor_request 0xee 0 0 40) \<noteq>
               of_nat (read_le (take 2 (drop 6 desc_ms_os_10)))"
    by (simp_all add: vendor_request_def desc_ms_os_10_bytes)
  show ?thesis
    using h4 h0
      desc_ms_os_10_self_consistent
        [where request = "vendor_request 0xee 0 4 40" and ext = ext_accept and rhport = 0
           and s = idle_device]
      desc_ms_os_10_self_consistent
        [where request = "vendor_request 0xee 0 0 40" and ext = ext_accept and rhport = 0
           and s = idle_device]
    by (simp add: idle_device_def)
qed

end
